theory Spec2Isabelle
  imports Complex_Main
begin

section \<open>Python values\<close>

text \<open>
  A Python \<^verbatim>\<open>str\<close> is modelled by its UTF-8 encoding, one \<^typ>\<open>char\<close> per byte, and
  \<^verbatim>\<open>bytes\<close> by the same type. The program only concatenates, joins and compares
  strings, and all of these commute with the encoding. Literals of \<^verbatim>\<open>app.py\<close> that
  hold CJK characters are spelled byte by byte.
\<close>

type_synonym bytes = string
type_synonym path = string

text \<open>
  An exception raised by a library call: its class name and what \<^verbatim>\<open>str(e)\<close> (the
  \<^verbatim>\<open>{e}\<close> of an f-string) gives. Every exception of the model is an instance of
  Python's \<^verbatim>\<open>Exception\<close>, which is what \<^verbatim>\<open>except Exception\<close> catches.
  A call either raises (\<open>Inl\<close>) or returns (\<open>Inr\<close>).
\<close>

datatype exn = Exn (exn_class: string) (exn_str: string)

subsection \<open>\<^verbatim>\<open>str(int)\<close>, \<^verbatim>\<open>str * int\<close>, \<^verbatim>\<open>str.join\<close>, \<^verbatim>\<open>str.endswith\<close>, true division\<close>

definition digit_char :: "nat \<Rightarrow> char" where
  "digit_char d = ''0123456789'' ! d"

function str_nat :: "nat \<Rightarrow> string" where
  "str_nat n = (if n < 10 then [digit_char n] else str_nat (n div 10) @ [digit_char (n mod 10)])"
  by pat_completeness auto
termination
  by (relation "measure id") auto

declare str_nat.simps [simp del]

definition str_int :: "int \<Rightarrow> string" where
  "str_int i = (if i < 0 then CHR ''-'' # str_nat (nat (- i)) else str_nat (nat i))"

text \<open>\<^verbatim>\<open>s * n\<close>: \<open>n\<close> copies of \<open>s\<close>, none when \<open>n\<close> is zero or negative.\<close>

definition str_mul :: "string \<Rightarrow> int \<Rightarrow> string" where
  "str_mul s n = concat (replicate (nat n) s)"

fun py_join :: "string \<Rightarrow> string list \<Rightarrow> string" where
  "py_join sep [] = []"
| "py_join sep [x] = x"
| "py_join sep (x # y # ys) = x @ sep @ py_join sep (y # ys)"

definition endswith :: "string \<Rightarrow> string \<Rightarrow> bool" where
  "endswith s suf = (length suf \<le> length s \<and> drop (length s - length suf) s = suf)"

text \<open>
  \<^verbatim>\<open>a / b\<close> on two Python ints raises \<^verbatim>\<open>ZeroDivisionError\<close> when \<open>b\<close> is zero. Its value is
  modelled by the exact quotient, a rational number (the float Python computes is that
  quotient correctly rounded).
\<close>

definition py_truediv :: "int \<Rightarrow> int \<Rightarrow> exn + rat" where
  "py_truediv a b =
     (if b = 0 then Inl (Exn ''ZeroDivisionError'' ''division by zero'')
      else Inr (of_int a / of_int b))"

section \<open>The literals of \<^verbatim>\<open>app.py\<close>\<close>

definition newline :: string where
  "newline = [CHR 0x0A]"

text \<open>Lines 50 and 72: the table-of-contents header, two CJK characters, a colon, a newline.\<close>

definition toc_header :: string where
  "toc_header = [CHR 0xE7, CHR 0x9B, CHR 0xAE, CHR 0xE5, CHR 0xBD, CHR 0x95, CHR 0x3A, CHR 0x0A]"

text \<open>Lines 52 and 74: the line that says no table of contents was found.\<close>

definition toc_not_found :: string where
  "toc_not_found =
     [CHR 0xE6, CHR 0x9C, CHR 0xAA, CHR 0xE6, CHR 0x89, CHR 0xBE, CHR 0xE5, CHR 0x88, CHR 0xB0,
      CHR 0xE7, CHR 0x9B, CHR 0xAE, CHR 0xE5, CHR 0xBD, CHR 0x95, CHR 0xE3, CHR 0x80, CHR 0x82,
      CHR 0x0A]"

text \<open>Lines 55 and 77: what stands between the title and the page number, \<^verbatim>\<open> (\<close>, two CJK
  characters (page number) and a space.\<close>

definition page_label :: string where
  "page_label = [CHR 0x20, CHR 0x28, CHR 0xE9, CHR 0xA1, CHR 0xB5, CHR 0xE7, CHR 0xA0, CHR 0x81, CHR 0x20]"

text \<open>Lines 36, 63 and 90: the prefixes of the three error messages.\<close>

definition epub_error_prefix :: string where
  "epub_error_prefix =
     [CHR 0xE5, CHR 0xA4, CHR 0x84, CHR 0xE7, CHR 0x90, CHR 0x86] @ ''EPUB'' @
     [CHR 0xE6, CHR 0x96, CHR 0x87, CHR 0xE4, CHR 0xBB, CHR 0xB6, CHR 0xE6, CHR 0x97, CHR 0xB6,
      CHR 0xE5, CHR 0x87, CHR 0xBA, CHR 0xE9, CHR 0x94, CHR 0x99] @ '': ''"

definition pdf_error_prefix :: string where
  "pdf_error_prefix =
     [CHR 0xE5, CHR 0xA4, CHR 0x84, CHR 0xE7, CHR 0x90, CHR 0x86] @ ''PDF'' @
     [CHR 0xE6, CHR 0x96, CHR 0x87, CHR 0xE4, CHR 0xBB, CHR 0xB6, CHR 0xE6, CHR 0x97, CHR 0xB6,
      CHR 0xE5, CHR 0x87, CHR 0xBA, CHR 0xE9, CHR 0x94, CHR 0x99] @ '': ''"

definition ocr_error_prefix :: string where
  "ocr_error_prefix =
     ''OCR'' @ [CHR 0xE5, CHR 0xA4, CHR 0x84, CHR 0xE7, CHR 0x90, CHR 0x86] @ ''PDF'' @
     [CHR 0xE6, CHR 0x97, CHR 0xB6, CHR 0xE5, CHR 0x87, CHR 0xBA, CHR 0xE9, CHR 0x94, CHR 0x99] @ '': ''"

section \<open>PDF text extraction (\<^verbatim>\<open>pdf_to_text\<close>, lines 44 to 63)\<close>

text \<open>
  PyMuPDF, Pillow and pytesseract are not part of the program: what they return is a
  parameter. \<open>fitz_open\<close> is \<^verbatim>\<open>fitz.open(stream=..., filetype="pdf")\<close>, \<open>get_toc\<close> is
  \<^verbatim>\<open>doc.get_toc()\<close>, a list of (level, title, page); \<open>doc_pages\<close> is the sequence of pages
  that iterating the document yields, and \<^verbatim>\<open>len(doc)\<close> is its length.
  \<open>get_pixmap\<close> takes the dpi and \<open>image_to_string\<close> the language.
\<close>

type_synonym toc_entry = "int \<times> string \<times> int"

record ('doc, 'page, 'pix, 'img) pdf_lib =
  fitz_open :: "bytes \<Rightarrow> exn + 'doc"
  get_toc :: "'doc \<Rightarrow> exn + toc_entry list"
  doc_pages :: "'doc \<Rightarrow> 'page list"
  page_get_text :: "'page \<Rightarrow> exn + string"
  get_pixmap :: "'page \<Rightarrow> nat \<Rightarrow> exn + 'pix"
  frombytes :: "'pix \<Rightarrow> exn + 'img"
  image_to_string :: "'img \<Rightarrow> string \<Rightarrow> exn + string"

text \<open>Lines 54 and 55: the loop that appends one line per entry to \<open>toc_text\<close>.\<close>

fun pdf_to_text_toc_loop :: "toc_entry list \<Rightarrow> string \<Rightarrow> string" where
  "pdf_to_text_toc_loop [] toc_text = toc_text"
| "pdf_to_text_toc_loop ((level, title, page) # rest) toc_text =
     pdf_to_text_toc_loop rest
       (toc_text @ str_mul ''  '' (level - 1) @ ''- '' @ title @ page_label @ str_int page @ '')'' @ newline)"

text \<open>Lines 57 to 59: the loop that appends each page's text to \<open>full_text\<close>.\<close>

fun pdf_to_text_page_loop ::
  "('doc, 'page, 'pix, 'img) pdf_lib \<Rightarrow> 'page list \<Rightarrow> string \<Rightarrow> exn + string" where
  "pdf_to_text_page_loop L [] full_text = Inr full_text"
| "pdf_to_text_page_loop L (page # rest) full_text =
     (case page_get_text L page of
        Inl e \<Rightarrow> Inl e
      | Inr t \<Rightarrow> pdf_to_text_page_loop L rest (full_text @ t))"

text \<open>Lines 47 to 61: the body of the \<^verbatim>\<open>try\<close>.\<close>

definition pdf_to_text_try ::
  "('doc, 'page, 'pix, 'img) pdf_lib \<Rightarrow> bytes \<Rightarrow> exn + string \<times> string" where
  "pdf_to_text_try L file_content =
     (case fitz_open L file_content of
        Inl e \<Rightarrow> Inl e
      | Inr doc \<Rightarrow>
          (case get_toc L doc of
             Inl e \<Rightarrow> Inl e
           | Inr toc \<Rightarrow>
               (let toc_text = toc_header;
                    toc_text = (if toc = [] then toc_text @ toc_not_found
                                else pdf_to_text_toc_loop toc toc_text)
                in case pdf_to_text_page_loop L (doc_pages L doc) [] of
                     Inl e \<Rightarrow> Inl e
                   | Inr full_text \<Rightarrow> Inr (full_text, toc_text))))"

text \<open>Lines 46, 62 and 63: the \<^verbatim>\<open>try\<close> with its handler, which returns the message and
  an empty table of contents.\<close>

definition pdf_to_text ::
  "('doc, 'page, 'pix, 'img) pdf_lib \<Rightarrow> bytes \<Rightarrow> exn + string \<times> string" where
  "pdf_to_text L file_content =
     (case pdf_to_text_try L file_content of
        Inr r \<Rightarrow> Inr r
      | Inl e \<Rightarrow> Inr (pdf_error_prefix @ exn_str e, []))"

section \<open>PDF OCR extraction (\<^verbatim>\<open>pdf_ocr\<close>, lines 66 to 90)\<close>

text \<open>
  What the outside world sees of a run, in order: \<open>Ocr i\<close> when the work on the page of
  index \<open>i\<close> (counted from 0, as \<^verbatim>\<open>enumerate\<close> does) starts at line 82, and \<open>Progress v\<close>
  when \<^verbatim>\<open>progress_bar.progress(v)\<close> is called at line 86. The progress bar is the
  caller's; the function receives the trace so far and returns the extended one.
\<close>

datatype event = Ocr nat | Progress rat

text \<open>Lines 76 and 77: the second copy of the table-of-contents loop.\<close>

fun pdf_ocr_toc_loop :: "toc_entry list \<Rightarrow> string \<Rightarrow> string" where
  "pdf_ocr_toc_loop [] toc_text = toc_text"
| "pdf_ocr_toc_loop ((level, title, page) # rest) toc_text =
     pdf_ocr_toc_loop rest
       (toc_text @ str_mul ''  '' (level - 1) @ ''- '' @ title @ page_label @ str_int page @ '')'' @ newline)"

text \<open>Lines 82 to 84: rasterise the page at 300 dpi, build the image, recognise it.\<close>

definition ocr_page :: "('doc, 'page, 'pix, 'img) pdf_lib \<Rightarrow> 'page \<Rightarrow> exn + string" where
  "ocr_page L page =
     (case get_pixmap L page 300 of
        Inl e \<Rightarrow> Inl e
      | Inr pix \<Rightarrow>
          (case frombytes L pix of
             Inl e \<Rightarrow> Inl e
           | Inr img \<Rightarrow> image_to_string L img ''chi_sim+eng''))"

text \<open>Line 85: the f-string put before the page's text.\<close>

definition page_delimiter :: "nat \<Rightarrow> string" where
  "page_delimiter i = newline @ ''--- Page '' @ str_int (int i + 1) @ '' ---'' @ newline"

text \<open>Lines 81 to 86: the loop over \<^verbatim>\<open>enumerate(doc)\<close>.\<close>

fun pdf_ocr_page_loop ::
  "('doc, 'page, 'pix, 'img) pdf_lib \<Rightarrow> nat \<Rightarrow> (nat \<times> 'page) list \<Rightarrow> string \<Rightarrow> event list
     \<Rightarrow> (exn + string) \<times> event list" where
  "pdf_ocr_page_loop L total_pages [] full_text tr = (Inr full_text, tr)"
| "pdf_ocr_page_loop L total_pages ((i, page) # rest) full_text tr =
     (case ocr_page L page of
        Inl e \<Rightarrow> (Inl e, tr @ [Ocr i])
      | Inr page_text \<Rightarrow>
          (case py_truediv (int i + 1) (int total_pages) of
             Inl e \<Rightarrow> (Inl e, tr @ [Ocr i])
           | Inr v \<Rightarrow>
               pdf_ocr_page_loop L total_pages rest
                 (full_text @ page_delimiter i @ page_text) (tr @ [Ocr i, Progress v])))"

text \<open>Lines 69 to 88: the body of the \<^verbatim>\<open>try\<close>.\<close>

definition pdf_ocr_try ::
  "('doc, 'page, 'pix, 'img) pdf_lib \<Rightarrow> bytes \<Rightarrow> event list
     \<Rightarrow> (exn + string \<times> string) \<times> event list" where
  "pdf_ocr_try L file_content tr =
     (case fitz_open L file_content of
        Inl e \<Rightarrow> (Inl e, tr)
      | Inr doc \<Rightarrow>
          (case get_toc L doc of
             Inl e \<Rightarrow> (Inl e, tr)
           | Inr toc \<Rightarrow>
               (let toc_text = toc_header;
                    toc_text = (if toc = [] then toc_text @ toc_not_found
                                else pdf_ocr_toc_loop toc toc_text);
                    total_pages = length (doc_pages L doc)
                in case pdf_ocr_page_loop L total_pages (enumerate 0 (doc_pages L doc)) [] tr of
                     (Inl e, tr') \<Rightarrow> (Inl e, tr')
                   | (Inr full_text, tr') \<Rightarrow> (Inr (full_text, toc_text), tr'))))"

text \<open>Lines 68, 89 and 90: the \<^verbatim>\<open>try\<close> with its handler.\<close>

definition pdf_ocr ::
  "('doc, 'page, 'pix, 'img) pdf_lib \<Rightarrow> bytes \<Rightarrow> event list
     \<Rightarrow> (exn + string \<times> string) \<times> event list" where
  "pdf_ocr L file_content tr =
     (case pdf_ocr_try L file_content tr of
        (Inr r, tr') \<Rightarrow> (Inr r, tr')
      | (Inl e, tr') \<Rightarrow> (Inr (ocr_error_prefix @ exn_str e, []), tr'))"

text \<open>The values the progress bar has received, oldest first.\<close>

fun reported :: "event list \<Rightarrow> rat list" where
  "reported [] = []"
| "reported (Progress v # es) = v # reported es"
| "reported (Ocr i # es) = reported es"

section \<open>EPUB conversion (\<^verbatim>\<open>epub_to_text\<close>, lines 15 to 41)\<close>

text \<open>
  The file system is a map from paths to contents, owned by the call while it runs.
  \<^verbatim>\<open>os.path.exists\<close> and \<^verbatim>\<open>os.unlink\<close> act on it: unlinking a path that is not there
  raises \<^verbatim>\<open>FileNotFoundError\<close>, unlinking one that is there removes it.
\<close>

type_synonym fs = "path \<rightharpoonup> bytes"

definition os_path_exists :: "fs \<Rightarrow> path \<Rightarrow> bool" where
  "os_path_exists disk p = (disk p \<noteq> None)"

definition os_unlink :: "fs \<Rightarrow> path \<Rightarrow> exn + fs" where
  "os_unlink disk p =
     (if disk p = None
      then Inl (Exn ''FileNotFoundError'' (''[Errno 2] No such file or directory: '' @ p))
      else Inr (disk(p := None)))"

text \<open>
  The libraries of this function, as parameters. \<open>tmp_stem\<close> is the choice
  \<^verbatim>\<open>tempfile\<close> makes of a directory and a random name (or the exception it raises when
  it finds none); \<open>write_fault\<close> and \<open>close_fault\<close> say whether writing the content to
  the open temporary file, and closing it, raise (a full disk, a quota, an I/O error).
  \<open>read_epub\<close> is \<^verbatim>\<open>epub.read_epub\<close>, which reads the file at a path; \<open>get_items\<close> is the
  sequence \<^verbatim>\<open>book.get_items()\<close> yields; \<open>ITEM_DOCUMENT\<close> is the constant of
  \<^verbatim>\<open>ebooklib\<close>; \<open>BeautifulSoup\<close> takes the markup and the parser's name.
\<close>

record ('book, 'item, 'soup) epub_lib =
  tmp_stem :: "fs \<Rightarrow> exn + path"
  write_fault :: "fs \<Rightarrow> path \<Rightarrow> bytes \<Rightarrow> exn option"
  close_fault :: "fs \<Rightarrow> path \<Rightarrow> exn option"
  read_epub :: "fs \<Rightarrow> path \<Rightarrow> exn + 'book"
  get_items :: "'book \<Rightarrow> 'item list"
  get_type :: "'item \<Rightarrow> int"
  ITEM_DOCUMENT :: int
  get_content :: "'item \<Rightarrow> exn + bytes"
  BeautifulSoup :: "bytes \<Rightarrow> string \<Rightarrow> exn + 'soup"
  soup_get_text :: "'soup \<Rightarrow> exn + string"

text \<open>
  \<^verbatim>\<open>tempfile.NamedTemporaryFile(delete=False, suffix=...)\<close>: the name is the stem followed
  by the suffix, and the file is created empty under that name.
\<close>

definition NamedTemporaryFile ::
  "('book, 'item, 'soup) epub_lib \<Rightarrow> fs \<Rightarrow> string \<Rightarrow> exn + path \<times> fs" where
  "NamedTemporaryFile L disk suffix =
     (case tmp_stem L disk of
        Inl e \<Rightarrow> Inl e
      | Inr stem \<Rightarrow> Inr (stem @ suffix, disk(stem @ suffix \<mapsto> [])))"

text \<open>\<^verbatim>\<open>tmp.write(file_content)\<close>: a failed write leaves the file as it was.\<close>

definition tmp_write ::
  "('book, 'item, 'soup) epub_lib \<Rightarrow> fs \<Rightarrow> path \<Rightarrow> bytes \<Rightarrow> (exn + unit) \<times> fs" where
  "tmp_write L disk p file_content =
     (case write_fault L disk p file_content of
        Some e \<Rightarrow> (Inl e, disk)
      | None \<Rightarrow> (Inr (), disk(p \<mapsto> file_content)))"

text \<open>
  Leaving the \<^verbatim>\<open>with\<close> block closes the file, whether the block ended normally or by
  an exception; with \<^verbatim>\<open>delete=False\<close> closing removes nothing. An exception of the
  close takes the place of the block's outcome.
\<close>

definition with_exit ::
  "('book, 'item, 'soup) epub_lib \<Rightarrow> fs \<Rightarrow> path \<Rightarrow> exn + unit \<Rightarrow> exn + unit" where
  "with_exit L disk p outcome =
     (case close_fault L disk p of
        Some e \<Rightarrow> Inl e
      | None \<Rightarrow> outcome)"

text \<open>Lines 31 and 32: the text of one document item.\<close>

definition item_text :: "('book, 'item, 'soup) epub_lib \<Rightarrow> 'item \<Rightarrow> exn + string" where
  "item_text L item =
     (case get_content L item of
        Inl e \<Rightarrow> Inl e
      | Inr markup \<Rightarrow>
          (case BeautifulSoup L markup ''html.parser'' of
             Inl e \<Rightarrow> Inl e
           | Inr soup \<Rightarrow> soup_get_text L soup))"

text \<open>Lines 29 to 32: the loop over the items, appending to the list \<open>text_content\<close>.\<close>

fun epub_item_loop ::
  "('book, 'item, 'soup) epub_lib \<Rightarrow> 'item list \<Rightarrow> string list \<Rightarrow> exn + string list" where
  "epub_item_loop L [] text_content = Inr text_content"
| "epub_item_loop L (item # rest) text_content =
     (if get_type L item = ITEM_DOCUMENT L
      then (case item_text L item of
              Inl e \<Rightarrow> Inl e
            | Inr t \<Rightarrow> epub_item_loop L rest (text_content @ [t]))
      else epub_item_loop L rest text_content)"

text \<open>
  Lines 18 to 33: the body of the \<^verbatim>\<open>try\<close>. It gives its outcome, the value the local
  \<open>tmp_path\<close> has when the body is left, and the file system. Inside the \<^verbatim>\<open>with\<close> block
  the write comes first and the assignment to \<open>tmp_path\<close> second, so \<open>tmp_path\<close> is
  assigned only when the write has returned.
\<close>

definition epub_to_text_try ::
  "('book, 'item, 'soup) epub_lib \<Rightarrow> fs \<Rightarrow> bytes \<Rightarrow> (exn + string) \<times> path \<times> fs" where
  "epub_to_text_try L disk file_content =
     (let tmp_path = [] in
      case NamedTemporaryFile L disk ''.epub'' of
        Inl e \<Rightarrow> (Inl e, tmp_path, disk)
      | Inr (tmp_name, disk1) \<Rightarrow>
          (case tmp_write L disk1 tmp_name file_content of
             (written, disk2) \<Rightarrow>
               (let tmp_path = (case written of Inl e \<Rightarrow> tmp_path | Inr u \<Rightarrow> tmp_name) in
                case with_exit L disk2 tmp_name written of
                  Inl e \<Rightarrow> (Inl e, tmp_path, disk2)
                | Inr u \<Rightarrow>
                    (case read_epub L disk2 tmp_path of
                       Inl e \<Rightarrow> (Inl e, tmp_path, disk2)
                     | Inr book \<Rightarrow>
                         (case epub_item_loop L (get_items L book) [] of
                            Inl e \<Rightarrow> (Inl e, tmp_path, disk2)
                          | Inr text_content \<Rightarrow>
                              (Inr (py_join newline text_content), tmp_path, disk2))))))"

text \<open>
  Lines 17 to 41: the handler turns an exception of the body into the message; the
  \<^verbatim>\<open>finally\<close> block then runs on every path, and an exception it raised would replace
  the value about to be returned.
\<close>

definition epub_to_text ::
  "('book, 'item, 'soup) epub_lib \<Rightarrow> fs \<Rightarrow> bytes \<Rightarrow> (exn + string) \<times> fs" where
  "epub_to_text L disk file_content =
     (case epub_to_text_try L disk file_content of
        (outcome, tmp_path, disk1) \<Rightarrow>
          (let ret = (case outcome of
                        Inr s \<Rightarrow> Inr s
                      | Inl e \<Rightarrow> Inr (epub_error_prefix @ exn_str e))
           in if tmp_path \<noteq> [] \<and> os_path_exists disk1 tmp_path
              then (case os_unlink disk1 tmp_path of
                      Inl e \<Rightarrow> (Inl e, disk1)
                    | Inr disk2 \<Rightarrow> (ret, disk2))
              else (ret, disk1)))"

section \<open>The page script (lines 100 to 160)\<close>

text \<open>
  \<^verbatim>\<open>st.session_state\<close> is a dictionary that outlives one run of the script. The script
  uses four of its keys; a key is absent, or holds \<^verbatim>\<open>None\<close> or a string.
\<close>

datatype slot = Processed_text | File_name | Toc | Secondary_text

type_synonym session_state = "slot \<rightharpoonup> string option"

text \<open>Lines 100 to 107: a key that is absent is set to \<^verbatim>\<open>None\<close>.\<close>

definition init_session :: "session_state \<Rightarrow> session_state" where
  "init_session s =
     (let s = (if s Processed_text = None then s(Processed_text \<mapsto> None) else s);
          s = (if s File_name = None then s(File_name \<mapsto> None) else s);
          s = (if s Toc = None then s(Toc \<mapsto> None) else s);
          s = (if s Secondary_text = None then s(Secondary_text \<mapsto> None) else s)
      in s)"

text \<open>
  What the widgets return in one run: the uploaded file (its name and its bytes) or
  nothing, the mode the radio shows, the checkbox, and for each button whether it was
  pressed.
\<close>

record upload =
  upload_name :: string
  upload_value :: bytes

datatype pdf_mode = Extract_text | Ocr_scan

record ui_input =
  uploaded_file :: "upload option"
  epub_button :: bool
  pdf_mode :: pdf_mode
  text_button :: bool
  output_txt_additionally :: bool
  ocr_button :: bool

text \<open>
  Each branch gives the exception that ended the run, if any, the session state and the
  file system. Assignments are in the order of the source, so an exception between two
  of them would leave the earlier ones done.
\<close>

text \<open>Lines 119 to 123.\<close>

definition epub_branch ::
  "('book, 'item, 'soup) epub_lib \<Rightarrow> bytes \<Rightarrow> string \<Rightarrow> session_state \<times> fs
     \<Rightarrow> exn option \<times> session_state \<times> fs" where
  "epub_branch E file_content file_name_base state =
     (case state of (s, disk) \<Rightarrow>
        (case epub_to_text E disk file_content of
           (Inl e, disk') \<Rightarrow> (Some e, s, disk')
         | (Inr result, disk') \<Rightarrow>
             (let s = s(Processed_text \<mapsto> Some result);
                  s = s(File_name \<mapsto> Some (file_name_base @ ''_epub.txt''));
                  s = s(Toc \<mapsto> None);
                  s = s(Secondary_text \<mapsto> None)
              in (None, s, disk'))))"

text \<open>Lines 135 to 139.\<close>

definition pdf_text_branch ::
  "('doc, 'page, 'pix, 'img) pdf_lib \<Rightarrow> bytes \<Rightarrow> string \<Rightarrow> session_state \<times> fs
     \<Rightarrow> exn option \<times> session_state \<times> fs" where
  "pdf_text_branch P file_content file_name_base state =
     (case state of (s, disk) \<Rightarrow>
        (case pdf_to_text P file_content of
           Inl e \<Rightarrow> (Some e, s, disk)
         | Inr (txt, toc) \<Rightarrow>
             (let s = s(Processed_text \<mapsto> Some txt);
                  s = s(Toc \<mapsto> Some toc);
                  s = s(File_name \<mapsto> Some (file_name_base @ ''_text.txt''));
                  s = s(Secondary_text \<mapsto> None)
              in (None, s, disk))))"

text \<open>Lines 146 to 158. The progress bar is made at line 146, so its trace starts empty.\<close>

definition pdf_ocr_branch ::
  "('doc, 'page, 'pix, 'img) pdf_lib \<Rightarrow> bool \<Rightarrow> bytes \<Rightarrow> string \<Rightarrow> session_state \<times> fs
     \<Rightarrow> exn option \<times> session_state \<times> fs" where
  "pdf_ocr_branch P additionally file_content file_name_base state =
     (case state of (s, disk) \<Rightarrow>
        (case pdf_ocr P file_content [] of
           (Inl e, progress_bar) \<Rightarrow> (Some e, s, disk)
         | (Inr (ocr_text, toc), progress_bar) \<Rightarrow>
             (let s = s(Processed_text \<mapsto> Some ocr_text);
                  s = s(Toc \<mapsto> Some toc);
                  s = s(File_name \<mapsto> Some (file_name_base @ ''_ocr.txt''))
              in if additionally
                 then (case pdf_to_text P file_content of
                         Inl e \<Rightarrow> (Some e, s, disk)
                       | Inr (text_only, unused) \<Rightarrow>
                           (None, s(Secondary_text \<mapsto> Some text_only), disk))
                 else (None, s(Secondary_text \<mapsto> None), disk))))"

text \<open>
  Lines 100 to 160. \<open>splitext\<close> is \<^verbatim>\<open>os.path.splitext\<close>, a parameter; the script takes the
  first component of its result.
\<close>

definition script ::
  "('book, 'item, 'soup) epub_lib \<Rightarrow> ('doc, 'page, 'pix, 'img) pdf_lib
     \<Rightarrow> (string \<Rightarrow> string \<times> string) \<Rightarrow> ui_input \<Rightarrow> session_state \<times> fs
     \<Rightarrow> exn option \<times> session_state \<times> fs" where
  "script E P splitext inp state =
     (case state of (s0, disk) \<Rightarrow>
        (let s = init_session s0 in
         case uploaded_file inp of
           None \<Rightarrow> (None, s, disk)
         | Some f \<Rightarrow>
             (let file_content = upload_value f;
                  file_name_base = fst (splitext (upload_name f))
              in if endswith (upload_name f) ''.epub''
                 then (if epub_button inp
                       then epub_branch E file_content file_name_base (s, disk)
                       else (None, s, disk))
                 else if endswith (upload_name f) ''.pdf''
                 then (if pdf_mode inp = Extract_text
                       then (if text_button inp
                             then pdf_text_branch P file_content file_name_base (s, disk)
                             else (None, s, disk))
                       else (if ocr_button inp
                             then pdf_ocr_branch P (output_txt_additionally inp)
                                    file_content file_name_base (s, disk)
                             else (None, s, disk)))
                 else (None, s, disk))))"

section \<open>Sample libraries\<close>

text \<open>
  Two concrete libraries on which the functions can be run. A sample document is its
  table of contents and its pages, a page its text layer and what OCR reads on it.
  The sample opener knows two documents and refuses every other byte string.
\<close>

definition sample_pdf ::
  "(toc_entry list \<times> (string \<times> string) list, string \<times> string, string, string) pdf_lib" where
  "sample_pdf =
     \<lparr> fitz_open = (\<lambda>b.
         if b = ''%PDF-book''
         then Inr ([(1, ''Chapter 1'', 5), (2, ''Section 1.1'', 7)],
                   [(''first'', ''scan one''), (''second'', ''scan two'')])
         else if b = ''%PDF-blank'' then Inr ([], [])
         else Inl (Exn ''FileDataError'' ''Failed to open stream'')),
       get_toc = (\<lambda>d. Inr (fst d)),
       doc_pages = snd,
       page_get_text = (\<lambda>p. Inr (fst p)),
       get_pixmap = (\<lambda>p dpi. Inr (snd p)),
       frombytes = Inr,
       image_to_string = (\<lambda>img lang. Inr img) \<rparr>"

text \<open>
  A sample book is its list of items, an item its type and its content. Type 9 is the
  document type; the sample parser returns the content as it is.
\<close>

definition sample_epub :: "((int \<times> string) list, int \<times> string, string) epub_lib" where
  "sample_epub =
     \<lparr> tmp_stem = (\<lambda>disk. Inr ''/tmp/tmpk3v9''),
       write_fault = (\<lambda>disk p c. None),
       close_fault = (\<lambda>disk p. None),
       read_epub = (\<lambda>disk p.
         case disk p of
           None \<Rightarrow> Inl (Exn ''FileNotFoundError'' ''No such file'')
         | Some c \<Rightarrow>
             if c = ''PK-book'' then Inr [(9, ''one''), (1, ''cover.png''), (9, ''two'')]
             else Inl (Exn ''BadZipFile'' ''File is not a zip file'')),
       get_items = (\<lambda>book. book),
       get_type = fst,
       ITEM_DOCUMENT = 9,
       get_content = (\<lambda>item. Inr (snd item)),
       BeautifulSoup = (\<lambda>markup parser. Inr markup),
       soup_get_text = Inr \<rparr>"

text \<open>
  The same library on a disk without a free block. The empty file can still be created.
  A write longer than the file object's buffer (8192 bytes in this sample) goes to the
  disk at once and raises; a shorter one stays in the buffer and it is the close, which
  flushes the buffer, that raises.
\<close>

definition full_disk_epub :: "((int \<times> string) list, int \<times> string, string) epub_lib" where
  "full_disk_epub =
     sample_epub
       \<lparr> write_fault := (\<lambda>disk p c.
           if 8192 < length c
           then Some (Exn ''OSError'' ''[Errno 28] No space left on device'')
           else None),
         close_fault := (\<lambda>disk p.
           case disk p of
             Some (x # xs) \<Rightarrow> Some (Exn ''OSError'' ''[Errno 28] No space left on device'')
           | _ \<Rightarrow> None) \<rparr>"

section \<open>Auxiliary facts\<close>

lemma str_int_digit [simp]:
  "str_int 1 = ''1''" "str_int 2 = ''2''" "str_int 5 = ''5''" "str_int 7 = ''7''"
  by (simp_all add: str_int_def str_nat.simps digit_char_def)

lemma toc_loop_text:
  "pdf_to_text_toc_loop toc acc =
     acc @ concat (map (\<lambda>(level, title, page).
        concat (replicate (nat (level - 1)) ''  '') @ ''- '' @ title @ page_label
          @ str_int page @ '')'' @ newline) toc)"
  by (induction toc arbitrary: acc) (auto simp: str_mul_def)

lemma toc_loop_ocr:
  "pdf_ocr_toc_loop toc acc =
     acc @ concat (map (\<lambda>(level, title, page).
        concat (replicate (nat (level - 1)) ''  '') @ ''- '' @ title @ page_label
          @ str_int page @ '')'' @ newline) toc)"
  by (induction toc arbitrary: acc) (auto simp: str_mul_def)

lemma page_loop_text:
  "\<forall>p\<in>set ps. page_get_text L p = Inr (txt p) \<Longrightarrow>
   pdf_to_text_page_loop L ps acc = Inr (acc @ concat (map txt ps))"
  by (induction ps arbitrary: acc) auto

lemma sample_book:
  "fitz_open sample_pdf ''%PDF-book'' =
     Inr ([(1, ''Chapter 1'', 5), (2, ''Section 1.1'', 7)],
          [(''first'', ''scan one''), (''second'', ''scan two'')])"
  by (simp add: sample_pdf_def)

lemma sample_blank: "fitz_open sample_pdf ''%PDF-blank'' = Inr ([], [])"
  by (simp add: sample_pdf_def)

lemma sample_pdf_sel [simp]:
  "get_toc sample_pdf d = Inr (fst d)"
  "doc_pages sample_pdf d = snd d"
  "page_get_text sample_pdf p = Inr (fst p)"
  "ocr_page sample_pdf p = Inr (snd p)"
  by (simp_all add: sample_pdf_def ocr_page_def)

lemma pdf_to_text_returns: "\<exists>t toc. pdf_to_text P c = Inr (t, toc)"
  by (auto simp: pdf_to_text_def split: sum.split)

lemma pdf_ocr_returns: "\<exists>t toc tr'. pdf_ocr P c tr = (Inr (t, toc), tr')"
  by (auto simp: pdf_ocr_def split: sum.split prod.split)




lemma ocr_loop_ok:
  assumes "0 < N \<or> ps = []" and "\<forall>p\<in>set ps. ocr_page L p = Inr (scan p)"
  shows "pdf_ocr_page_loop L N (enumerate k ps) acc tr =
     (Inr (acc @ concat (map (\<lambda>(i, p). page_delimiter i @ scan p) (enumerate k ps))),
      tr @ concat (map (\<lambda>i. [Ocr i, Progress (of_nat (i + 1) / of_nat N)]) [k..<k + length ps]))"
  using assms
proof (induction ps arbitrary: k acc tr)
  case Nil
  then show ?case by simp
next
  case (Cons p ps)
  have div: "py_truediv (int k + 1) (int N) = Inr (of_nat (k + 1) / of_nat N)"
    using Cons.prems(1) by (simp add: py_truediv_def)
  have "[k..<k + length (p # ps)] = k # [Suc k..<Suc k + length ps]"
    by (simp add: upt_rec)
  with Cons div show ?case by simp
qed

lemma reported_append: "reported (xs @ ys) = reported xs @ reported ys"
  by (induction xs rule: reported.induct) auto


lemma enumerate_shift:
  "map (\<lambda>(i, p). f (Suc i) p) (enumerate k ps) = map (\<lambda>(n, p). f n p) (enumerate (Suc k) ps)"
  by (induction ps arbitrary: k) auto

lemma pdf_ocr_try_ok:
  assumes "fitz_open L b = Inr doc"
    and "get_toc L doc = Inr toc"
    and "\<forall>p\<in>set (doc_pages L doc). ocr_page L p = Inr (scan p)"
  shows "pdf_ocr_try L b tr =
     (Inr (concat (map (\<lambda>(i, p). page_delimiter i @ scan p) (enumerate 0 (doc_pages L doc))),
           toc_header @
           (if toc = [] then toc_not_found
            else concat (map (\<lambda>(level, title, page).
                   concat (replicate (nat (level - 1)) ''  '') @ ''- '' @ title @ page_label
                     @ str_int page @ '')'' @ newline) toc))),
      tr @ concat (map (\<lambda>i. [Ocr i, Progress (of_nat (i + 1) / of_nat (length (doc_pages L doc)))])
             [0..<length (doc_pages L doc)]))"
proof -
  have "0 < length (doc_pages L doc) \<or> doc_pages L doc = []" by auto
  from ocr_loop_ok [OF this assms(3), of 0 "[]" tr] assms(1,2)
  show ?thesis by (simp add: pdf_ocr_try_def toc_loop_ocr)
qed

lemma pdf_ocr_of_try: "pdf_ocr_try L b tr = (Inr r, tr') \<Longrightarrow> pdf_ocr L b tr = (Inr r, tr')"
  by (simp add: pdf_ocr_def)



lemma sample_book_scans:
  "\<forall>p\<in>set (doc_pages sample_pdf ([(1, ''Chapter 1'', 5), (2, ''Section 1.1'', 7)],
       [(''first'', ''scan one''), (''second'', ''scan two'')])). ocr_page sample_pdf p = Inr (snd p)"
  by simp


lemma tmp_name_nonempty: "NamedTemporaryFile L disk ''.epub'' = Inr (p, disk1) \<Longrightarrow> p \<noteq> []"
  by (auto simp: NamedTemporaryFile_def split: sum.splits)

lemma try_tmp_path:
  "epub_to_text_try L disk c = (outcome, tmp_path, disk1) \<Longrightarrow>
   tmp_path = [] \<or> disk1 tmp_path \<noteq> None"
  by (auto simp: epub_to_text_try_def NamedTemporaryFile_def tmp_write_def Let_def
      split: sum.splits prod.splits option.splits)

lemma epub_to_text_outcome:
  "fst (epub_to_text L disk c) =
     (case fst (epub_to_text_try L disk c) of
        Inr s \<Rightarrow> Inr s
      | Inl e \<Rightarrow> Inr (epub_error_prefix @ exn_str e))"
proof -
  obtain outcome tmp_path disk1 where t: "epub_to_text_try L disk c = (outcome, tmp_path, disk1)"
    by (cases "epub_to_text_try L disk c") auto
  from try_tmp_path [OF t] show ?thesis
    by (auto simp: epub_to_text_def t os_path_exists_def os_unlink_def Let_def)
qed

lemma epub_to_text_returns: "\<exists>s disk'. epub_to_text L disk c = (Inr s, disk')"
proof -
  have "\<exists>s. fst (epub_to_text L disk c) = Inr s"
    by (simp add: epub_to_text_outcome split: sum.split)
  then show ?thesis by (cases "epub_to_text L disk c") auto
qed

lemma sample_epub_sel [simp]:
  "tmp_stem sample_epub d = Inr ''/tmp/tmpk3v9''"
  "write_fault sample_epub d p c = None"
  "close_fault sample_epub d p = None"
  "get_items sample_epub book = book"
  "get_type sample_epub it = fst it"
  "ITEM_DOCUMENT sample_epub = 9"
  "item_text sample_epub it = Inr (snd it)"
  by (simp_all add: sample_epub_def item_text_def)

lemma sample_read_junk:
  "read_epub sample_epub [''/tmp/tmpk3v9.epub'' \<mapsto> ''not a zip''] ''/tmp/tmpk3v9.epub'' =
     Inl (Exn ''BadZipFile'' ''File is not a zip file'')"
  by (simp add: sample_epub_def)

lemma sample_read_book:
  "read_epub sample_epub [''/tmp/tmpk3v9.epub'' \<mapsto> ''PK-book''] ''/tmp/tmpk3v9.epub'' =
     Inr [(9, ''one''), (1, ''cover.png''), (9, ''two'')]"
  by (simp add: sample_epub_def)

lemma sample_try_junk:
  "fst (epub_to_text_try sample_epub Map.empty ''not a zip'') =
     Inl (Exn ''BadZipFile'' ''File is not a zip file'')"
  by (simp add: epub_to_text_try_def NamedTemporaryFile_def tmp_write_def with_exit_def
      sample_read_junk)

lemma epub_to_text_removes_written_file:
  assumes "NamedTemporaryFile L disk ''.epub'' = Inr (p, disk1)"
    and "write_fault L disk1 p c = None"
  shows "\<not> os_path_exists (snd (epub_to_text L disk c)) p"
  using assms tmp_name_nonempty [OF assms(1)]
  by (auto simp: epub_to_text_def epub_to_text_try_def tmp_write_def os_path_exists_def
      os_unlink_def Let_def split: sum.splits prod.splits)

lemma sample_text_run:
  "pdf_to_text sample_pdf ''%PDF-book'' =
     Inr (''firstsecond'',
          toc_header @ ''- Chapter 1'' @ page_label @ ''5)'' @ newline
            @ ''  - Section 1.1'' @ page_label @ ''7)'' @ newline)"
  by (simp add: pdf_to_text_def pdf_to_text_try_def sample_book toc_loop_text)

lemma sample_ocr_run:
  "pdf_ocr sample_pdf ''%PDF-book'' [] =
     (Inr (''\<newline>--- Page 1 ---\<newline>scan one\<newline>--- Page 2 ---\<newline>scan two'',
           toc_header @ ''- Chapter 1'' @ page_label @ ''5)'' @ newline
             @ ''  - Section 1.1'' @ page_label @ ''7)'' @ newline),
      [Ocr 0, Progress (1 / 2), Ocr 1, Progress 1])"
  using pdf_ocr_of_try [OF pdf_ocr_try_ok [OF sample_book _ sample_book_scans, of _ "[]"]]
  by (simp add: enumerate_eq_zip upt_rec page_delimiter_def newline_def)

lemma sample_epub_run:
  "epub_to_text sample_epub Map.empty ''PK-book'' = (Inr (''one'' @ newline @ ''two''), Map.empty)"
  by (simp add: epub_to_text_def epub_to_text_try_def NamedTemporaryFile_def tmp_write_def
      with_exit_def sample_read_book os_path_exists_def os_unlink_def)

section \<open>The table of contents of \<^verbatim>\<open>pdf_to_text\<close>\<close>

text \<open>
  C4. For a well-formed PDF (the document opens, its table of contents is read, every
  page gives its text), \<open>pdf_to_text\<close> returns the pages' texts in page order and a
  table-of-contents text that starts with the header; the header is followed by the
  not-found line when the table is empty, and otherwise by one line per entry, in
  order: \<open>level - 1\<close> copies of two spaces, a dash and a space, the title, the page
  label, the page number in decimal, a closing parenthesis and a newline.
\<close>

theorem pdf_to_text_toc:
  assumes "fitz_open L b = Inr doc"
    and "get_toc L doc = Inr toc"
    and "\<forall>p\<in>set (doc_pages L doc). page_get_text L p = Inr (txt p)"
  shows "pdf_to_text L b =
     Inr (concat (map txt (doc_pages L doc)),
          toc_header @
          (if toc = [] then toc_not_found
           else concat (map (\<lambda>(level, title, page).
                  concat (replicate (nat (level - 1)) ''  '') @ ''- '' @ title @ page_label
                    @ str_int page @ '')'' @ newline) toc)))"
proof -
  have "pdf_to_text_page_loop L (doc_pages L doc) [] = Inr (concat (map txt (doc_pages L doc)))"
    using page_loop_text [OF assms(3), of "[]"] by simp
  with assms(1,2) show ?thesis
    by (simp add: pdf_to_text_def pdf_to_text_try_def toc_loop_text)
qed

text \<open>
  On the sample book, the level-1 entry (Chapter 1, page 5) gives a line without indent
  and the level-2 entry a line with one indent of two spaces; the sample blank document
  gives the header and the not-found line.
\<close>

theorem pdf_to_text_toc_witness:
  "pdf_to_text sample_pdf ''%PDF-book'' =
     Inr (''firstsecond'',
          toc_header @ ''- Chapter 1'' @ page_label @ ''5)'' @ newline
            @ ''  - Section 1.1'' @ page_label @ ''7)'' @ newline)
   \<and> pdf_to_text sample_pdf ''%PDF-blank'' = Inr ([], toc_header @ toc_not_found)"
  using pdf_to_text_toc [OF sample_book, of _ fst] pdf_to_text_toc [OF sample_blank, of _ fst]
  by simp

section \<open>Failures of the PDF functions\<close>



section \<open>The progress reports of \<^verbatim>\<open>pdf_ocr\<close>\<close>



section \<open>The full text of \<^verbatim>\<open>pdf_ocr\<close>\<close>

text \<open>
  C7, as stated: the full text is the concatenation of the header \<^verbatim>\<open>--- Page N ---\<close>
  and the page's text, page after page. On the sample book the function returns
  something else: each header stands between two newline characters.
\<close>

theorem pdf_ocr_header_counterexample:
  "map_sum id fst (fst (pdf_ocr sample_pdf ''%PDF-book'' [])) =
     Inr ''\<newline>--- Page 1 ---\<newline>scan one\<newline>--- Page 2 ---\<newline>scan two''
   \<and> map_sum id fst (fst (pdf_ocr sample_pdf ''%PDF-book'' [])) \<noteq>
     Inr (''--- Page 1 ---'' @ ''scan one'' @ ''--- Page 2 ---'' @ ''scan two'')"
  by (simp add: pdf_ocr_def pdf_ocr_try_def sample_book enumerate_eq_zip upt_rec
      py_truediv_def page_delimiter_def newline_def)

text \<open>
  C7, amended. For a well-formed PDF, the full text returned by \<open>pdf_ocr\<close> is the
  concatenation, in page order, of a newline, the header \<^verbatim>\<open>--- Page N ---\<close> with \<open>N\<close>
  the 1-based page number, a newline, and the page's OCR-recognised text.
\<close>

theorem pdf_ocr_full_text:
  assumes "fitz_open L b = Inr doc"
    and "get_toc L doc = Inr toc"
    and "\<forall>p\<in>set (doc_pages L doc). ocr_page L p = Inr (scan p)"
  shows "\<exists>toc_text. fst (pdf_ocr L b tr) =
     Inr (concat (map (\<lambda>(n, p). newline @ ''--- Page '' @ str_int (int n) @ '' ---'' @ newline @ scan p)
                   (enumerate 1 (doc_pages L doc))),
          toc_text)"
proof -
  have "map (\<lambda>(i, p). page_delimiter i @ scan p) (enumerate 0 (doc_pages L doc)) =
        map (\<lambda>(n, p). newline @ ''--- Page '' @ str_int (int n) @ '' ---'' @ newline @ scan p)
          (enumerate 1 (doc_pages L doc))"
    using enumerate_shift [of "\<lambda>n p. newline @ ''--- Page '' @ str_int (int n) @ '' ---'' @ newline @ scan p"
        0 "doc_pages L doc"]
    by (simp add: page_delimiter_def add.commute)
  with pdf_ocr_of_try [OF pdf_ocr_try_ok [OF assms, of tr]] show ?thesis by simp
qed

theorem pdf_ocr_full_text_witness:
  "map_sum id fst (fst (pdf_ocr sample_pdf ''%PDF-book'' [])) =
     Inr (newline @ ''--- Page 1 ---'' @ newline @ ''scan one''
          @ newline @ ''--- Page 2 ---'' @ newline @ ''scan two'')"
  using pdf_ocr_full_text [OF sample_book _ sample_book_scans, of _ "[]"]
  by (auto simp: enumerate_eq_zip upt_rec)

section \<open>The two tables of contents\<close>

text \<open>
  C8. When the body of \<open>pdf_to_text\<close> and the body of \<open>pdf_ocr\<close> both end without an
  exception on the same bytes, the table-of-contents text \<open>pdf_ocr\<close> returns is the one
  \<open>pdf_to_text\<close> returns.
\<close>

theorem toc_handling_identical:
  assumes "pdf_to_text_try L b = Inr (text1, toc1)"
    and "fst (pdf_ocr_try L b tr) = Inr (text2, toc2)"
  shows "pdf_to_text L b = Inr (text1, toc1) \<and> fst (pdf_ocr L b tr) = Inr (text2, toc2) \<and> toc2 = toc1"
proof -
  from assms(1) obtain doc toc where
    d: "fitz_open L b = Inr doc" and t: "get_toc L doc = Inr toc"
    by (auto simp: pdf_to_text_try_def split: sum.splits)
  from assms(1) d t have 1: "toc1 = toc_header @ (if toc = [] then toc_not_found
      else concat (map (\<lambda>(level, title, page).
        concat (replicate (nat (level - 1)) ''  '') @ ''- '' @ title @ page_label
          @ str_int page @ '')'' @ newline) toc))"
    by (auto simp: pdf_to_text_try_def toc_loop_text split: sum.splits)
  from assms(2) d t have 2: "toc2 = toc_header @ (if toc = [] then toc_not_found
      else concat (map (\<lambda>(level, title, page).
        concat (replicate (nat (level - 1)) ''  '') @ ''- '' @ title @ page_label
          @ str_int page @ '')'' @ newline) toc))"
    by (auto simp: pdf_ocr_try_def toc_loop_ocr split: sum.splits prod.splits)
  have 3: "pdf_to_text L b = Inr (text1, toc1)"
    using assms(1) by (simp add: pdf_to_text_def)
  have 4: "fst (pdf_ocr L b tr) = Inr (text2, toc2)"
    using assms(2) by (cases "pdf_ocr_try L b tr") (simp add: pdf_ocr_def)
  from 1 2 3 4 show ?thesis by simp
qed

theorem toc_handling_identical_witness:
  "pdf_to_text sample_pdf ''%PDF-book'' =
     Inr (''firstsecond'',
          toc_header @ ''- Chapter 1'' @ page_label @ ''5)'' @ newline
            @ ''  - Section 1.1'' @ page_label @ ''7)'' @ newline)
   \<and> fst (pdf_ocr sample_pdf ''%PDF-book'' []) =
     Inr (''\<newline>--- Page 1 ---\<newline>scan one\<newline>--- Page 2 ---\<newline>scan two'',
          toc_header @ ''- Chapter 1'' @ page_label @ ''5)'' @ newline
            @ ''  - Section 1.1'' @ page_label @ ''7)'' @ newline)"
proof -
  have 1: "pdf_to_text_try sample_pdf ''%PDF-book'' =
     Inr (''firstsecond'',
          toc_header @ ''- Chapter 1'' @ page_label @ ''5)'' @ newline
            @ ''  - Section 1.1'' @ page_label @ ''7)'' @ newline)"
    by (simp add: pdf_to_text_try_def sample_book toc_loop_text)
  have 2: "fst (pdf_ocr_try sample_pdf ''%PDF-book'' []) =
     Inr (''\<newline>--- Page 1 ---\<newline>scan one\<newline>--- Page 2 ---\<newline>scan two'',
          toc_header @ ''- Chapter 1'' @ page_label @ ''5)'' @ newline
            @ ''  - Section 1.1'' @ page_label @ ''7)'' @ newline)"
    using pdf_ocr_try_ok [OF sample_book _ sample_book_scans, of _ "[]"]
    by (simp add: enumerate_eq_zip upt_rec page_delimiter_def newline_def)
  from toc_handling_identical [OF 1 2] show ?thesis by simp
qed

section \<open>\<^verbatim>\<open>pdf_ocr\<close> on a document without pages\<close>

text \<open>
  C10. For a PDF that opens, whose table of contents is read and that has no page, the
  body of \<open>pdf_ocr\<close> ends without an exception (so the division by the page count,
  which would raise \<^verbatim>\<open>ZeroDivisionError\<close>, is not evaluated), \<open>pdf_ocr\<close> returns the empty
  full text with the rendered table of contents, and the trace is the one it received:
  the progress bar is not called.
\<close>

theorem pdf_ocr_zero_pages:
  assumes "fitz_open L b = Inr doc"
    and "get_toc L doc = Inr toc"
    and "doc_pages L doc = []"
  shows "pdf_ocr_try L b tr =
           (Inr ([], toc_header @
                 (if toc = [] then toc_not_found
                  else concat (map (\<lambda>(level, title, page).
                         concat (replicate (nat (level - 1)) ''  '') @ ''- '' @ title @ page_label
                           @ str_int page @ '')'' @ newline) toc))), tr)
       \<and> pdf_ocr L b tr =
           (Inr ([], toc_header @
                 (if toc = [] then toc_not_found
                  else concat (map (\<lambda>(level, title, page).
                         concat (replicate (nat (level - 1)) ''  '') @ ''- '' @ title @ page_label
                           @ str_int page @ '')'' @ newline) toc))), tr)"
  using assms by (simp add: pdf_ocr_def pdf_ocr_try_def toc_loop_ocr)

theorem pdf_ocr_zero_pages_witness:
  "pdf_ocr sample_pdf ''%PDF-blank'' [] = (Inr ([], toc_header @ toc_not_found), [])"
  using pdf_ocr_zero_pages [OF sample_blank, of "[]" "[]"] by simp

section \<open>The temporary file of \<^verbatim>\<open>epub_to_text\<close>\<close>

text \<open>
  C1. The claim is that the temporary file is gone when \<open>epub_to_text\<close> returns, on
  every path. On the full disk, with an upload larger than the buffer, the file is
  created, the write raises before \<open>tmp_path\<close> is assigned, the handler returns the
  message, and the \<^verbatim>\<open>finally\<close> block, which finds \<open>tmp_path\<close> empty, removes nothing:
  the file is still there after the return.
\<close>

theorem epub_to_text_leaves_file_when_write_fails:
  "epub_to_text_try full_disk_epub Map.empty (replicate 8193 (CHR ''A'')) =
     (Inl (Exn ''OSError'' ''[Errno 28] No space left on device''), [],
      [''/tmp/tmpk3v9.epub'' \<mapsto> []])
   \<and> fst (epub_to_text full_disk_epub Map.empty (replicate 8193 (CHR ''A''))) =
     Inr (epub_error_prefix @ ''[Errno 28] No space left on device'')
   \<and> os_path_exists (snd (epub_to_text full_disk_epub Map.empty (replicate 8193 (CHR ''A''))))
       ''/tmp/tmpk3v9.epub''"
  by (simp add: epub_to_text_def epub_to_text_try_def NamedTemporaryFile_def tmp_write_def
      with_exit_def full_disk_epub_def sample_epub_def os_path_exists_def)

section \<open>\<^verbatim>\<open>epub_to_text\<close> never raises\<close>

text \<open>
  C2. For every byte string, every library and every file system, \<open>epub_to_text\<close>
  returns a string and does not raise; when a call inside the \<^verbatim>\<open>try\<close> raised \<open>e\<close>, the
  string is the error prefix followed by the description of \<open>e\<close>.
\<close>

theorem epub_to_text_never_raises:
  "(\<exists>s. fst (epub_to_text L disk c) = Inr s)
   \<and> (\<forall>e. fst (epub_to_text_try L disk c) = Inl e \<longrightarrow>
         fst (epub_to_text L disk c) = Inr (epub_error_prefix @ exn_str e))"
  by (simp add: epub_to_text_outcome split: sum.split)

theorem epub_to_text_never_raises_witness:
  "fst (epub_to_text sample_epub Map.empty ''not a zip'') =
     Inr (epub_error_prefix @ ''File is not a zip file'')"
  using epub_to_text_never_raises [of sample_epub Map.empty "''not a zip''"] sample_try_junk
  by simp

section \<open>The text of an EPUB\<close>



section \<open>The session state after a conversion\<close>

text \<open>
  C9. Whenever an uploaded file and a pressed button start a conversion (EPUB, PDF
  text, PDF OCR), the run of the script ends without an exception and leaves a session
  state in which each of the four slots holds the value this conversion assigned:
  the state after the run is a function of the conversion's results alone, and nothing
  of the state before the run is left. Each slot holds one value, so there is one
  primary and one secondary result at most.
\<close>

theorem conversion_assigns_all_slots:
  assumes "uploaded_file inp = Some f"
  shows "(endswith (upload_name f) ''.epub'' \<and> epub_button inp \<longrightarrow>
           (\<exists>result disk'.
              epub_to_text E disk (upload_value f) = (Inr result, disk') \<and>
              script E P splitext inp (s, disk) =
                (None,
                 [Processed_text \<mapsto> Some result,
                  File_name \<mapsto> Some (fst (splitext (upload_name f)) @ ''_epub.txt''),
                  Toc \<mapsto> None,
                  Secondary_text \<mapsto> None],
                 disk')))
       \<and> (\<not> endswith (upload_name f) ''.epub'' \<and> endswith (upload_name f) ''.pdf''
            \<and> pdf_mode inp = Extract_text \<and> text_button inp \<longrightarrow>
           (\<exists>txt toc.
              pdf_to_text P (upload_value f) = Inr (txt, toc) \<and>
              script E P splitext inp (s, disk) =
                (None,
                 [Processed_text \<mapsto> Some txt,
                  Toc \<mapsto> Some toc,
                  File_name \<mapsto> Some (fst (splitext (upload_name f)) @ ''_text.txt''),
                  Secondary_text \<mapsto> None],
                 disk)))
       \<and> (\<not> endswith (upload_name f) ''.epub'' \<and> endswith (upload_name f) ''.pdf''
            \<and> pdf_mode inp = Ocr_scan \<and> ocr_button inp \<longrightarrow>
           (\<exists>ocr_text toc tr text_only toc'.
              pdf_ocr P (upload_value f) [] = (Inr (ocr_text, toc), tr) \<and>
              pdf_to_text P (upload_value f) = Inr (text_only, toc') \<and>
              script E P splitext inp (s, disk) =
                (None,
                 [Processed_text \<mapsto> Some ocr_text,
                  Toc \<mapsto> Some toc,
                  File_name \<mapsto> Some (fst (splitext (upload_name f)) @ ''_ocr.txt''),
                  Secondary_text \<mapsto>
                    (if output_txt_additionally inp then Some text_only else None)],
                 disk)))"
proof (intro conjI impI)
  assume a: "endswith (upload_name f) ''.epub'' \<and> epub_button inp"
  obtain result disk' where r: "epub_to_text E disk (upload_value f) = (Inr result, disk')"
    using epub_to_text_returns by blast
  have "script E P splitext inp (s, disk) =
          (None,
           [Processed_text \<mapsto> Some result,
            File_name \<mapsto> Some (fst (splitext (upload_name f)) @ ''_epub.txt''),
            Toc \<mapsto> None,
            Secondary_text \<mapsto> None],
           disk')"
    using assms a r
    apply (simp add: script_def epub_branch_def Let_def)
    apply (rule ext)
    subgoal for k by (cases k) simp_all
    done
  with r show "\<exists>result disk'.
              epub_to_text E disk (upload_value f) = (Inr result, disk') \<and>
              script E P splitext inp (s, disk) =
                (None,
                 [Processed_text \<mapsto> Some result,
                  File_name \<mapsto> Some (fst (splitext (upload_name f)) @ ''_epub.txt''),
                  Toc \<mapsto> None,
                  Secondary_text \<mapsto> None],
                 disk')"
    by blast
next
  assume a: "\<not> endswith (upload_name f) ''.epub'' \<and> endswith (upload_name f) ''.pdf''
            \<and> pdf_mode inp = Extract_text \<and> text_button inp"
  obtain t toc where r: "pdf_to_text P (upload_value f) = Inr (t, toc)"
    using pdf_to_text_returns by blast
  have "script E P splitext inp (s, disk) =
                (None,
                 [Processed_text \<mapsto> Some t,
                  Toc \<mapsto> Some toc,
                  File_name \<mapsto> Some (fst (splitext (upload_name f)) @ ''_text.txt''),
                  Secondary_text \<mapsto> None],
                 disk)"
    using assms a r
    apply (simp add: script_def pdf_text_branch_def Let_def)
    apply (rule ext)
    subgoal for k by (cases k) simp_all
    done
  with r show "\<exists>t toc.
              pdf_to_text P (upload_value f) = Inr (t, toc) \<and>
              script E P splitext inp (s, disk) =
                (None,
                 [Processed_text \<mapsto> Some t,
                  Toc \<mapsto> Some toc,
                  File_name \<mapsto> Some (fst (splitext (upload_name f)) @ ''_text.txt''),
                  Secondary_text \<mapsto> None],
                 disk)"
    by blast
next
  assume a: "\<not> endswith (upload_name f) ''.epub'' \<and> endswith (upload_name f) ''.pdf''
            \<and> pdf_mode inp = Ocr_scan \<and> ocr_button inp"
  obtain ocr_text toc tr where r: "pdf_ocr P (upload_value f) [] = (Inr (ocr_text, toc), tr)"
    using pdf_ocr_returns by blast
  obtain text_only toc' where r': "pdf_to_text P (upload_value f) = Inr (text_only, toc')"
    using pdf_to_text_returns by blast
  have "script E P splitext inp (s, disk) =
                (None,
                 [Processed_text \<mapsto> Some ocr_text,
                  Toc \<mapsto> Some toc,
                  File_name \<mapsto> Some (fst (splitext (upload_name f)) @ ''_ocr.txt''),
                  Secondary_text \<mapsto>
                    (if output_txt_additionally inp then Some text_only else None)],
                 disk)"
    using assms a r r'
    apply (simp add: script_def pdf_ocr_branch_def Let_def)
    apply (intro conjI impI)
     apply (rule ext)
    subgoal for k by (cases k) simp_all
    apply (rule ext)
    subgoal for k by (cases k) simp_all
    done
  with r r' show "\<exists>ocr_text toc tr text_only toc'.
              pdf_ocr P (upload_value f) [] = (Inr (ocr_text, toc), tr) \<and>
              pdf_to_text P (upload_value f) = Inr (text_only, toc') \<and>
              script E P splitext inp (s, disk) =
                (None,
                 [Processed_text \<mapsto> Some ocr_text,
                  Toc \<mapsto> Some toc,
                  File_name \<mapsto> Some (fst (splitext (upload_name f)) @ ''_ocr.txt''),
                  Secondary_text \<mapsto>
                    (if output_txt_additionally inp then Some text_only else None)],
                 disk)"
    by blast
qed

theorem conversion_assigns_all_slots_witness:
  "script sample_epub sample_pdf (\<lambda>n. (take (length n - 4) n, drop (length n - 4) n))
     \<lparr> uploaded_file = Some \<lparr> upload_name = ''book.pdf'', upload_value = ''%PDF-book'' \<rparr>,
       epub_button = False, pdf_mode = Ocr_scan, text_button = False,
       output_txt_additionally = True, ocr_button = True \<rparr>
     ([Processed_text \<mapsto> Some ''old text'', File_name \<mapsto> Some ''old_epub.txt'',
       Toc \<mapsto> None, Secondary_text \<mapsto> None], Map.empty)
   = (None,
      [Processed_text \<mapsto>
         Some ''\<newline>--- Page 1 ---\<newline>scan one\<newline>--- Page 2 ---\<newline>scan two'',
       Toc \<mapsto> Some (toc_header @ ''- Chapter 1'' @ page_label @ ''5)'' @ newline
             @ ''  - Section 1.1'' @ page_label @ ''7)'' @ newline),
       File_name \<mapsto> Some ''book_ocr.txt'',
       Secondary_text \<mapsto> Some ''firstsecond''],
      Map.empty)
   \<and> script sample_epub sample_pdf (\<lambda>n. (take (length n - 4) n, drop (length n - 4) n))
     \<lparr> uploaded_file = Some \<lparr> upload_name = ''book.pdf'', upload_value = ''%PDF-book'' \<rparr>,
       epub_button = False, pdf_mode = Extract_text, text_button = True,
       output_txt_additionally = False, ocr_button = False \<rparr>
     ([Processed_text \<mapsto> Some ''old text'', Secondary_text \<mapsto> Some ''old extra''], Map.empty)
   = (None,
      [Processed_text \<mapsto> Some ''firstsecond'',
       Toc \<mapsto> Some (toc_header @ ''- Chapter 1'' @ page_label @ ''5)'' @ newline
             @ ''  - Section 1.1'' @ page_label @ ''7)'' @ newline),
       File_name \<mapsto> Some ''book_text.txt'',
       Secondary_text \<mapsto> None],
      Map.empty)
   \<and> script sample_epub sample_pdf (\<lambda>n. (take (length n - 5) n, drop (length n - 5) n))
     \<lparr> uploaded_file = Some \<lparr> upload_name = ''book.epub'', upload_value = ''PK-book'' \<rparr>,
       epub_button = True, pdf_mode = Extract_text, text_button = False,
       output_txt_additionally = False, ocr_button = False \<rparr>
     (Map.empty, Map.empty)
   = (None,
      [Processed_text \<mapsto> Some (''one'' @ newline @ ''two''),
       File_name \<mapsto> Some ''book_epub.txt'',
       Toc \<mapsto> None,
       Secondary_text \<mapsto> None],
      Map.empty)"
proof -
  let ?f = "\<lparr> upload_name = ''book.pdf'', upload_value = ''%PDF-book'' \<rparr>"
  let ?g = "\<lparr> upload_name = ''book.epub'', upload_value = ''PK-book'' \<rparr>"
  let ?ocr = "\<lparr> uploaded_file = Some ?f,
       epub_button = False, pdf_mode = Ocr_scan, text_button = False,
       output_txt_additionally = True, ocr_button = True \<rparr>"
  let ?ext = "\<lparr> uploaded_file = Some ?f,
       epub_button = False, pdf_mode = Extract_text, text_button = True,
       output_txt_additionally = False, ocr_button = False \<rparr>"
  let ?epub = "\<lparr> uploaded_file = Some ?g,
       epub_button = True, pdf_mode = Extract_text, text_button = False,
       output_txt_additionally = False, ocr_button = False \<rparr>"
  have 1: "uploaded_file ?ocr = Some ?f" by simp
  have 2: "uploaded_file ?ext = Some ?f" by simp
  have 3: "uploaded_file ?epub = Some ?g" by simp
  show ?thesis
    using conversion_assigns_all_slots [OF 1, of sample_epub Map.empty sample_pdf
        "\<lambda>n. (take (length n - 4) n, drop (length n - 4) n)"
        "[Processed_text \<mapsto> Some ''old text'', File_name \<mapsto> Some ''old_epub.txt'',
          Toc \<mapsto> None, Secondary_text \<mapsto> None]"]
      conversion_assigns_all_slots [OF 2, of sample_epub Map.empty sample_pdf
        "\<lambda>n. (take (length n - 4) n, drop (length n - 4) n)"
        "[Processed_text \<mapsto> Some ''old text'', Secondary_text \<mapsto> Some ''old extra'']"]
      conversion_assigns_all_slots [OF 3, of sample_epub Map.empty sample_pdf
        "\<lambda>n. (take (length n - 5) n, drop (length n - 5) n)" Map.empty]
    by (simp add: endswith_def sample_text_run sample_ocr_run sample_epub_run)
qed

end
